theory Spec2Isabelle
  imports Main
begin

section \<open>Session synchronizer of \<^verbatim>\<open>src/store/AuthContext.tsx\<close>\<close>

text \<open>
  The module keeps three pieces of React state (\<^verbatim>\<open>user\<close>, \<^verbatim>\<open>loading\<close>,
  \<^verbatim>\<open>initializing\<close>), subscribes to the identity provider, and offers
  \<^verbatim>\<open>signup\<close>, \<^verbatim>\<open>login\<close>, \<^verbatim>\<open>logout\<close>, \<^verbatim>\<open>isAdmin\<close> and the accessor \<^verbatim>\<open>useAuth\<close>.
  Every function below is a translation of the function of the same name. State is passed
  explicitly, a thrown value is a result, and the answers of the two external services
  (identity provider, document store) are inputs of each call.
\<close>

subsection \<open>JavaScript values and objects\<close>

datatype jsval = JUndefined | JNull | JBool bool | JNum int | JStr string

text \<open>An object is a finite map from property names to values.\<close>

type_synonym js_object = "string \<Rightarrow> jsval option"

text \<open>Property access \<^verbatim>\<open>o.k\<close>: a missing property reads as \<^verbatim>\<open>undefined\<close>.\<close>

definition get_prop :: "js_object \<Rightarrow> string \<Rightarrow> jsval" where
  "get_prop ob k = (case ob k of None \<Rightarrow> JUndefined | Some v \<Rightarrow> v)"

text \<open>Truthiness, and the operator \<^verbatim>\<open>a || b\<close>.\<close>

fun truthy :: "jsval \<Rightarrow> bool" where
  "truthy JUndefined = False"
| "truthy JNull = False"
| "truthy (JBool b) = b"
| "truthy (JNum n) = (n \<noteq> 0)"
| "truthy (JStr s) = (s \<noteq> [])"

definition js_or :: "jsval \<Rightarrow> jsval \<Rightarrow> jsval" where
  "js_or a b = (if truthy a then a else b)"

text \<open>A value of type \<^verbatim>\<open>string | null\<close>, and an optional parameter \<^verbatim>\<open>p?: string\<close>.\<close>

definition nullable :: "string option \<Rightarrow> jsval" where
  "nullable x = (case x of None \<Rightarrow> JNull | Some s \<Rightarrow> JStr s)"

definition optional :: "string option \<Rightarrow> jsval" where
  "optional x = (case x of None \<Rightarrow> JUndefined | Some s \<Rightarrow> JStr s)"

subsection \<open>Thrown values, the provider's user, the external services\<close>

datatype error = ProviderError string | StoreError string | Error string

record firebase_user =
  uid :: string
  email :: "string option"

text \<open>
  How the external services answer during one call: the provider's two credential
  functions, the outcome of \<^verbatim>\<open>signOut\<close>, whether the store's read or write fails
  (\<open>None\<close>: it does not), and the clock read by \<^verbatim>\<open>new Date().toISOString()\<close>.
\<close>

record services =
  createUserWithEmailAndPassword :: "string \<Rightarrow> string \<Rightarrow> error + firebase_user"
  signInWithEmailAndPassword :: "string \<Rightarrow> string \<Rightarrow> error + firebase_user"
  signOut :: "error option"
  getDoc_fault :: "error option"
  setDoc_fault :: "error option"
  now :: string

subsection \<open>State\<close>

text \<open>
  The three \<^verbatim>\<open>useState\<close> cells of \<^verbatim>\<open>AuthProvider\<close>, the \<^verbatim>\<open>users\<close> collection of the
  document store, the routes passed to \<^verbatim>\<open>navigate\<close> and the lines written by
  \<^verbatim>\<open>console.error\<close>.
\<close>

record world =
  user :: "js_object option"
  loading :: bool
  initializing :: bool
  users :: "string \<Rightarrow> js_object option"
  location :: "string list"
  console :: "(string \<times> error) list"

definition initial :: "(string \<Rightarrow> js_object option) \<Rightarrow> world" where
  "initial db = \<lparr>user = None, loading = True, initializing = True, users = db,
     location = [], console = []\<rparr>"

definition setUser :: "js_object option \<Rightarrow> world \<Rightarrow> world" where
  "setUser u s = s\<lparr>user := u\<rparr>"

definition setLoading :: "bool \<Rightarrow> world \<Rightarrow> world" where
  "setLoading b s = s\<lparr>loading := b\<rparr>"

definition setInitializing :: "bool \<Rightarrow> world \<Rightarrow> world" where
  "setInitializing b s = s\<lparr>initializing := b\<rparr>"

definition navigate :: "string \<Rightarrow> world \<Rightarrow> world" where
  "navigate p s = s\<lparr>location := location s @ [p]\<rparr>"

definition console_error :: "string \<Rightarrow> error \<Rightarrow> world \<Rightarrow> world" where
  "console_error msg e s = s\<lparr>console := console s @ [(msg, e)]\<rparr>"

text \<open>
  \<^verbatim>\<open>(await getDoc(doc(db, 'users', k))).data()\<close>: the record, or \<open>None\<close> for
  \<^verbatim>\<open>undefined\<close>; \<^verbatim>\<open>await setDoc(doc(db, 'users', k), d)\<close>: the store with the record
  under \<open>k\<close> replaced. Either one throws when the services say so.
\<close>

definition getDoc :: "services \<Rightarrow> string \<Rightarrow> world \<Rightarrow> error + js_object option" where
  "getDoc sv k s = (case getDoc_fault sv of Some e \<Rightarrow> Inl e | None \<Rightarrow> Inr (users s k))"

definition setDoc :: "services \<Rightarrow> string \<Rightarrow> js_object \<Rightarrow> world \<Rightarrow> error + world" where
  "setDoc sv k d s =
     (case setDoc_fault sv of Some e \<Rightarrow> Inl e | None \<Rightarrow> Inr (s\<lparr>users := (users s)(k \<mapsto> d)\<rparr>))"

subsection \<open>The subscription callback\<close>

text \<open>
  The \<^verbatim>\<open>try\<close> block of the callback given to \<^verbatim>\<open>onAuthStateChanged\<close>. The result pairs
  the thrown value (\<open>None\<close>: the block completed) with the state reached.
\<close>

definition onAuthStateChanged_try ::
  "services \<Rightarrow> firebase_user option \<Rightarrow> world \<Rightarrow> error option \<times> world" where
  "onAuthStateChanged_try sv firebaseUser s =
     (case firebaseUser of
        Some fu \<Rightarrow>
          (case getDoc sv (uid fu) s of
             Inl e \<Rightarrow> (Some e, s)
           | Inr userData \<Rightarrow>
               (case userData of
                  Some d \<Rightarrow>
                    (None, setUser (Some (map_of
                       [(''id'', JStr (uid fu)),
                        (''email'', nullable (email fu)),
                        (''businessName'', get_prop d ''businessName''),
                        (''website'', get_prop d ''website''),
                        (''role'', js_or (get_prop d ''role'') (JStr ''user'')),
                        (''status'', js_or (get_prop d ''status'') (JStr ''active''))])) s)
                | None \<Rightarrow>
                    (let newUser = map_of
                       [(''id'', JStr (uid fu)),
                        (''email'', nullable (email fu)),
                        (''role'', JStr ''user''),
                        (''status'', JStr ''active''),
                        (''createdAt'', JStr (now sv))]
                     in case setDoc sv (uid fu) newUser s of
                          Inl e \<Rightarrow> (Some e, s)
                        | Inr s' \<Rightarrow> (None, setUser (Some newUser) s'))))
      | None \<Rightarrow> (None, setUser None s))"

text \<open>
  The whole callback, from its call to its completion, when nothing else runs while it
  waits: \<^verbatim>\<open>catch\<close> logs and clears the user, \<^verbatim>\<open>finally\<close> clears both flags.
\<close>

definition onAuthStateChanged_callback ::
  "services \<Rightarrow> firebase_user option \<Rightarrow> world \<Rightarrow> error option \<times> world" where
  "onAuthStateChanged_callback sv firebaseUser s =
     (let (thrown, s1) = onAuthStateChanged_try sv firebaseUser s;
          (thrown', s2) = (case thrown of
                  Some e \<Rightarrow> (None, setUser None (console_error ''Error setting up user:'' e s1))
                | None \<Rightarrow> (None, s1))
      in (thrown', setInitializing False (setLoading False s2)))"

subsection \<open>Callbacks that overlap\<close>










subsection \<open>The operations\<close>

definition signup_try ::
  "services \<Rightarrow> string \<Rightarrow> string \<Rightarrow> string option \<Rightarrow> string option \<Rightarrow> world
     \<Rightarrow> error option \<times> world" where
  "signup_try sv email_in password businessName website s =
     (let s1 = setLoading True s
      in case createUserWithEmailAndPassword sv email_in password of
           Inl e \<Rightarrow> (Some e, s1)
         | Inr fu \<Rightarrow>
             (let userData = map_of
                [(''email'', nullable (email fu)),
                 (''businessName'', optional businessName),
                 (''website'', optional website),
                 (''role'', JStr ''user''),
                 (''status'', JStr ''active''),
                 (''createdAt'', JStr (now sv))]
              in case setDoc sv (uid fu) userData s1 of
                   Inl e \<Rightarrow> (Some e, s1)
                 | Inr s2 \<Rightarrow>
                     (None, navigate ''/business'' (setUser (Some (map_of
                        [(''id'', JStr (uid fu)),
                         (''email'', nullable (email fu)),
                         (''businessName'', optional businessName),
                         (''website'', optional website),
                         (''role'', JStr ''user''),
                         (''status'', JStr ''active'')])) s2))))"

text \<open>\<^verbatim>\<open>catch\<close> logs and throws the same value again; \<^verbatim>\<open>finally\<close> clears \<^verbatim>\<open>loading\<close>.\<close>

definition rethrow_finally :: "string \<Rightarrow> error option \<times> world \<Rightarrow> error option \<times> world" where
  "rethrow_finally msg r =
     (let (thrown, s1) = r;
          s2 = (case thrown of Some e \<Rightarrow> console_error msg e s1 | None \<Rightarrow> s1)
      in (thrown, setLoading False s2))"

definition signup ::
  "services \<Rightarrow> string \<Rightarrow> string \<Rightarrow> string option \<Rightarrow> string option \<Rightarrow> world
     \<Rightarrow> error option \<times> world" where
  "signup sv email_in password businessName website s =
     rethrow_finally ''Signup error:'' (signup_try sv email_in password businessName website s)"

definition login_try :: "services \<Rightarrow> string \<Rightarrow> string \<Rightarrow> world \<Rightarrow> error option \<times> world" where
  "login_try sv email_in password s =
     (let s1 = setLoading True s
      in case signInWithEmailAndPassword sv email_in password of
           Inl e \<Rightarrow> (Some e, s1)
         | Inr fu \<Rightarrow>
             (case getDoc sv (uid fu) s1 of
                Inl e \<Rightarrow> (Some e, s1)
              | Inr userData \<Rightarrow>
                  (let s2 = (case userData of
                       Some d \<Rightarrow> setUser (Some (map_of
                         [(''id'', JStr (uid fu)),
                          (''email'', nullable (email fu)),
                          (''businessName'', get_prop d ''businessName''),
                          (''website'', get_prop d ''website''),
                          (''role'', js_or (get_prop d ''role'') (JStr ''user'')),
                          (''status'', js_or (get_prop d ''status'') (JStr ''active''))])) s1
                     | None \<Rightarrow> s1)
                   in (None, navigate ''/business'' s2))))"

definition login :: "services \<Rightarrow> string \<Rightarrow> string \<Rightarrow> world \<Rightarrow> error option \<times> world" where
  "login sv email_in password s =
     rethrow_finally ''Login error:'' (login_try sv email_in password s)"

definition logout_try :: "services \<Rightarrow> world \<Rightarrow> error option \<times> world" where
  "logout_try sv s =
     (let s1 = setLoading True s
      in case signOut sv of
           Some e \<Rightarrow> (Some e, s1)
         | None \<Rightarrow> (None, navigate ''/'' (setUser None s1)))"

definition logout :: "services \<Rightarrow> world \<Rightarrow> error option \<times> world" where
  "logout sv s = rethrow_finally ''Logout error:'' (logout_try sv s)"

text \<open>\<^verbatim>\<open>user?.role === 'admin'\<close>\<close>

definition isAdmin :: "world \<Rightarrow> bool" where
  "isAdmin s = (case user s of None \<Rightarrow> False | Some u \<Rightarrow> get_prop u ''role'' = JStr ''admin'')"

subsection \<open>The context and its accessor\<close>

text \<open>
  The value a \<^verbatim>\<open>AuthContext.Provider\<close> publishes (its four operations are the functions
  above), and what \<^verbatim>\<open>AuthProvider\<close> renders: the spinner while \<^verbatim>\<open>initializing\<close>, the
  provider around its children afterwards.
\<close>

record auth_context =
  ctx_user :: "js_object option"
  ctx_loading :: bool

datatype rendered = Spinner | Provider auth_context

definition AuthProvider :: "world \<Rightarrow> rendered" where
  "AuthProvider s =
     (if initializing s then Spinner
      else Provider \<lparr>ctx_user = user s, ctx_loading = loading s\<rparr>)"

text \<open>
  \<^verbatim>\<open>useContext\<close> reads the nearest enclosing provider of the calling component, or the
  default given to \<^verbatim>\<open>createContext\<close> when there is none. The enclosing providers are
  listed innermost first; \<open>None\<close> is \<^verbatim>\<open>undefined\<close>, the default of \<^verbatim>\<open>AuthContext\<close>.
\<close>

definition useContext :: "'c \<Rightarrow> 'c list \<Rightarrow> 'c" where
  "useContext dflt enclosing = (case enclosing of [] \<Rightarrow> dflt | v # _ \<Rightarrow> v)"

definition useAuth :: "auth_context option list \<Rightarrow> error + auth_context" where
  "useAuth enclosing =
     (case useContext None enclosing of
        None \<Rightarrow> Inl (Error ''useAuth must be used within an AuthProvider'')
      | Some context \<Rightarrow> Inr context)"


text \<open>
  Whether the fetch, or the write that follows a fetch finding no record, fails while the
  callback handles the event.
\<close>

definition fetch_or_write_fails :: "services \<Rightarrow> firebase_user option \<Rightarrow> world \<Rightarrow> bool" where
  "fetch_or_write_fails sv firebaseUser s =
     (case firebaseUser of
        None \<Rightarrow> False
      | Some fu \<Rightarrow> getDoc_fault sv \<noteq> None \<or> (users s (uid fu) = None \<and> setDoc_fault sv \<noteq> None))"

subsection \<open>Concrete services and states\<close>

text \<open>A provider that accepts every credential, and one that rejects every call.\<close>

definition accepting :: services where
  "accepting =
     \<lparr>createUserWithEmailAndPassword = (\<lambda>em pw. Inr \<lparr>uid = ''uid-'' @ em, email = Some em\<rparr>),
      signInWithEmailAndPassword = (\<lambda>em pw. Inr \<lparr>uid = ''uid-'' @ em, email = Some em\<rparr>),
      signOut = None, getDoc_fault = None, setDoc_fault = None,
      now = ''2024-05-01T10:00:00.000Z''\<rparr>"

definition rejecting :: services where
  "rejecting =
     \<lparr>createUserWithEmailAndPassword = (\<lambda>em pw. Inl (ProviderError ''auth/email-already-in-use'')),
      signInWithEmailAndPassword = (\<lambda>em pw. Inl (ProviderError ''auth/wrong-password'')),
      signOut = Some (ProviderError ''auth/network-request-failed''),
      getDoc_fault = None, setDoc_fault = None,
      now = ''2024-05-01T10:00:00.000Z''\<rparr>"

text \<open>A signed-in administrator, and a stored record written without a role.\<close>

definition admin_session :: js_object where
  "admin_session = map_of
     [(''id'', JStr ''X''), (''email'', JStr ''root@x.io''),
      (''role'', JStr ''admin''), (''status'', JStr ''active'')]"

definition signed_in :: world where
  "signed_in = \<lparr>user = Some admin_session, loading = False, initializing = False,
     users = [''X'' \<mapsto> admin_session], location = [''/business''], console = []\<rparr>"

definition partial_record :: js_object where
  "partial_record = map_of
     [(''email'', JStr ''old@x.io''), (''businessName'', JStr ''Acme''),
      (''status'', JStr ''suspended'')]"

definition null_role_record :: js_object where
  "null_role_record = map_of [(''role'', JNull), (''website'', JStr ''acme.io'')]"

section \<open>Properties\<close>

lemmas state_defs = setUser_def setLoading_def setInitializing_def navigate_def
  console_error_def getDoc_def setDoc_def

subsection \<open>The subscription callback\<close>







text \<open>
  C2. When the event reports identity \<open>I\<close> and the fetch returns no record, the
  callback builds a record with role \<^verbatim>\<open>user\<close>, status \<^verbatim>\<open>active\<close>, the creation time
  and the provider's email; once the write has gone through, that record is in the store
  under \<open>I\<close> and the same record is the published Session.
\<close>

theorem callback_creates_missing_record:
  assumes "getDoc sv (uid fu) s = Inr None" and "setDoc_fault sv = None"
  shows "\<exists>newUser.
           users (snd (onAuthStateChanged_callback sv (Some fu) s)) (uid fu) = Some newUser
         \<and> user (snd (onAuthStateChanged_callback sv (Some fu) s)) = Some newUser
         \<and> get_prop newUser ''role'' = JStr ''user''
         \<and> get_prop newUser ''status'' = JStr ''active''
         \<and> get_prop newUser ''createdAt'' = JStr (now sv)
         \<and> get_prop newUser ''email'' = nullable (email fu)"
  using assms by (simp add: onAuthStateChanged_callback_def onAuthStateChanged_try_def Let_def
      state_defs get_prop_def)

theorem callback_creates_missing_record_witness:
  "\<exists>newUser.
      users (snd (onAuthStateChanged_callback accepting
               (Some \<lparr>uid = ''u1'', email = Some ''a@x.io''\<rparr>) (initial Map.empty))) ''u1''
        = Some newUser
    \<and> user (snd (onAuthStateChanged_callback accepting
               (Some \<lparr>uid = ''u1'', email = Some ''a@x.io''\<rparr>) (initial Map.empty)))
        = Some newUser
    \<and> get_prop newUser ''role'' = JStr ''user''
    \<and> get_prop newUser ''status'' = JStr ''active''
    \<and> get_prop newUser ''createdAt'' = JStr ''2024-05-01T10:00:00.000Z''
    \<and> get_prop newUser ''email'' = JStr ''a@x.io''"
proof -
  have fetch: "getDoc accepting (uid \<lparr>uid = ''u1'', email = Some ''a@x.io''\<rparr>)
      (initial Map.empty) = Inr None"
    by (simp add: getDoc_def accepting_def initial_def)
  have wr: "setDoc_fault accepting = None"
    by (simp add: accepting_def)
  show ?thesis
    using callback_creates_missing_record [OF fetch wr]
    by (simp add: accepting_def nullable_def)
qed

text \<open>
  C6. When the event reports identity \<open>I\<close> and the fetched record exists, the published
  Session carries \<open>I\<close>, the provider's email and the record's business name and website;
  its role and status are the record's, with \<^verbatim>\<open>user\<close> and \<^verbatim>\<open>active\<close> taken when the
  record has no such field, and likewise when the field is there with a falsy value
  (\<^verbatim>\<open>null\<close>, the empty string, zero, \<^verbatim>\<open>false\<close>), as \<^verbatim>\<open>||\<close> does.
\<close>

theorem callback_adopts_existing_record:
  assumes "getDoc sv (uid fu) s = Inr (Some d)"
  shows "\<exists>u. user (snd (onAuthStateChanged_callback sv (Some fu) s)) = Some u
     \<and> get_prop u ''id'' = JStr (uid fu)
     \<and> get_prop u ''email'' = nullable (email fu)
     \<and> get_prop u ''businessName'' = get_prop d ''businessName''
     \<and> get_prop u ''website'' = get_prop d ''website''
     \<and> get_prop u ''role'' = js_or (get_prop d ''role'') (JStr ''user'')
     \<and> get_prop u ''status'' = js_or (get_prop d ''status'') (JStr ''active'')
     \<and> (d ''role'' = None \<longrightarrow> get_prop u ''role'' = JStr ''user'')
     \<and> (truthy (get_prop d ''role'') \<longrightarrow> get_prop u ''role'' = get_prop d ''role'')
     \<and> (d ''status'' = None \<longrightarrow> get_prop u ''status'' = JStr ''active'')
     \<and> (truthy (get_prop d ''status'') \<longrightarrow> get_prop u ''status'' = get_prop d ''status'')
     \<and> (\<not> truthy (get_prop d ''role'') \<longrightarrow> get_prop u ''role'' = JStr ''user'')
     \<and> (\<not> truthy (get_prop d ''status'') \<longrightarrow> get_prop u ''status'' = JStr ''active'')"
  using assms
  by (simp add: onAuthStateChanged_callback_def onAuthStateChanged_try_def setUser_def
      setLoading_def setInitializing_def get_prop_def js_or_def)

theorem callback_adopts_existing_record_witness:
  "(\<exists>u. user (snd (onAuthStateChanged_callback accepting
             (Some \<lparr>uid = ''u1'', email = Some ''a@x.io''\<rparr>)
             (initial [''u1'' \<mapsto> partial_record]))) = Some u
     \<and> get_prop u ''id'' = JStr ''u1''
     \<and> get_prop u ''email'' = JStr ''a@x.io''
     \<and> get_prop u ''businessName'' = JStr ''Acme''
     \<and> get_prop u ''website'' = JUndefined
     \<and> get_prop u ''role'' = JStr ''user''
     \<and> get_prop u ''status'' = JStr ''suspended'')
 \<and> (\<exists>u. user (snd (onAuthStateChanged_callback accepting
             (Some \<lparr>uid = ''u2'', email = None\<rparr>)
             (initial [''u2'' \<mapsto> null_role_record]))) = Some u
     \<and> get_prop u ''id'' = JStr ''u2''
     \<and> get_prop u ''email'' = JNull
     \<and> get_prop u ''businessName'' = JUndefined
     \<and> get_prop u ''website'' = JStr ''acme.io''
     \<and> get_prop u ''role'' = JStr ''user''
     \<and> get_prop u ''status'' = JStr ''active'')"
proof -
  have fetch: "getDoc accepting (uid \<lparr>uid = ''u1'', email = Some ''a@x.io''\<rparr>)
      (initial [''u1'' \<mapsto> partial_record]) = Inr (Some partial_record)"
    by (simp add: getDoc_def accepting_def initial_def)
  have fields: "partial_record ''role'' = None"
    "get_prop partial_record ''role'' = JUndefined"
    "get_prop partial_record ''status'' = JStr ''suspended''"
    "get_prop partial_record ''businessName'' = JStr ''Acme''"
    "get_prop partial_record ''website'' = JUndefined"
    by (simp_all add: partial_record_def get_prop_def)
  have fetch': "getDoc accepting (uid \<lparr>uid = ''u2'', email = None\<rparr>)
      (initial [''u2'' \<mapsto> null_role_record]) = Inr (Some null_role_record)"
    by (simp add: getDoc_def accepting_def initial_def)
  have fields': "null_role_record ''status'' = None"
    "get_prop null_role_record ''role'' = JNull"
    "get_prop null_role_record ''status'' = JUndefined"
    "get_prop null_role_record ''businessName'' = JUndefined"
    "get_prop null_role_record ''website'' = JStr ''acme.io''"
    by (simp_all add: null_role_record_def get_prop_def)
  have first: "\<exists>u. user (snd (onAuthStateChanged_callback accepting
             (Some \<lparr>uid = ''u1'', email = Some ''a@x.io''\<rparr>)
             (initial [''u1'' \<mapsto> partial_record]))) = Some u
     \<and> get_prop u ''id'' = JStr ''u1''
     \<and> get_prop u ''email'' = JStr ''a@x.io''
     \<and> get_prop u ''businessName'' = JStr ''Acme''
     \<and> get_prop u ''website'' = JUndefined
     \<and> get_prop u ''role'' = JStr ''user''
     \<and> get_prop u ''status'' = JStr ''suspended''"
    using callback_adopts_existing_record [OF fetch] fields
    by (simp add: nullable_def js_or_def) blast
  have second: "\<exists>u. user (snd (onAuthStateChanged_callback accepting
             (Some \<lparr>uid = ''u2'', email = None\<rparr>)
             (initial [''u2'' \<mapsto> null_role_record]))) = Some u
     \<and> get_prop u ''id'' = JStr ''u2''
     \<and> get_prop u ''email'' = JNull
     \<and> get_prop u ''businessName'' = JUndefined
     \<and> get_prop u ''website'' = JStr ''acme.io''
     \<and> get_prop u ''role'' = JStr ''user''
     \<and> get_prop u ''status'' = JStr ''active''"
    using callback_adopts_existing_record [OF fetch'] fields'
    by (simp add: nullable_def js_or_def) blast
  from first second show ?thesis by blast
qed

text \<open>
  C5. The callback never throws and always ends with \<^verbatim>\<open>loading\<close> and
  \<^verbatim>\<open>initializing\<close> cleared. When its fetch or write fails, the Session is set to Absent
  and the error is appended to the console; nothing else changes.
\<close>

theorem callback_failure_contained:
  "fst (onAuthStateChanged_callback sv firebaseUser s) = None
 \<and> loading (snd (onAuthStateChanged_callback sv firebaseUser s)) = False
 \<and> initializing (snd (onAuthStateChanged_callback sv firebaseUser s)) = False
 \<and> (fetch_or_write_fails sv firebaseUser s \<longrightarrow>
      (\<exists>e. (getDoc_fault sv = Some e \<or> setDoc_fault sv = Some e)
         \<and> snd (onAuthStateChanged_callback sv firebaseUser s)
             = s\<lparr>user := None, loading := False, initializing := False,
                 console := console s @ [(''Error setting up user:'', e)]\<rparr>))"
proof -
  have flags: "fst (onAuthStateChanged_callback sv firebaseUser s) = None
     \<and> loading (snd (onAuthStateChanged_callback sv firebaseUser s)) = False
     \<and> initializing (snd (onAuthStateChanged_callback sv firebaseUser s)) = False"
    by (simp add: onAuthStateChanged_callback_def setLoading_def setInitializing_def
        split: prod.splits option.splits)
  have failing: "\<exists>e. (getDoc_fault sv = Some e \<or> setDoc_fault sv = Some e)
         \<and> snd (onAuthStateChanged_callback sv firebaseUser s)
             = s\<lparr>user := None, loading := False, initializing := False,
                 console := console s @ [(''Error setting up user:'', e)]\<rparr>"
    if "fetch_or_write_fails sv firebaseUser s"
  proof -
    from that obtain fu where fu: "firebaseUser = Some fu"
      and c: "getDoc_fault sv \<noteq> None \<or> (users s (uid fu) = None \<and> setDoc_fault sv \<noteq> None)"
      by (auto simp: fetch_or_write_fails_def split: option.splits)
    show ?thesis
    proof (cases "getDoc_fault sv")
      case (Some e)
      with fu show ?thesis
        by (intro exI [of _ e])
          (simp add: onAuthStateChanged_callback_def onAuthStateChanged_try_def state_defs)
    next
      case None
      with c obtain e where "users s (uid fu) = None" "setDoc_fault sv = Some e"
        by auto
      with None fu show ?thesis
        by (intro exI [of _ e])
          (simp add: onAuthStateChanged_callback_def onAuthStateChanged_try_def state_defs
            Let_def)
    qed
  qed
  from flags failing show ?thesis by blast
qed

theorem callback_failure_contained_witness:
  "fst (onAuthStateChanged_callback (accepting\<lparr>setDoc_fault := Some (StoreError ''permission-denied'')\<rparr>)
          (Some \<lparr>uid = ''u1'', email = None\<rparr>) signed_in) = None
 \<and> snd (onAuthStateChanged_callback (accepting\<lparr>setDoc_fault := Some (StoreError ''permission-denied'')\<rparr>)
          (Some \<lparr>uid = ''u1'', email = None\<rparr>) signed_in)
      = signed_in\<lparr>user := None, loading := False, initializing := False,
          console := [(''Error setting up user:'', StoreError ''permission-denied'')]\<rparr>"
proof -
  have fails: "fetch_or_write_fails (accepting\<lparr>setDoc_fault := Some (StoreError ''permission-denied'')\<rparr>)
      (Some \<lparr>uid = ''u1'', email = None\<rparr>) signed_in"
    by (simp add: fetch_or_write_fails_def accepting_def signed_in_def)
  show ?thesis
    using callback_failure_contained
      [of "accepting\<lparr>setDoc_fault := Some (StoreError ''permission-denied'')\<rparr>"
          "Some \<lparr>uid = ''u1'', email = None\<rparr>" signed_in] fails
    by (auto simp: accepting_def signed_in_def)
qed

subsection \<open>signup, login, logout\<close>

text \<open>
  C3. After a \<^verbatim>\<open>signup\<close> that succeeds, reading the record stored under the new
  identity returns a record whose business name and website are the ones given, with role
  \<^verbatim>\<open>user\<close> and status \<^verbatim>\<open>active\<close>.
\<close>

theorem signup_roundtrip:
  assumes ok: "signup sv email_in password biz site s = (None, s')"
      and rd: "getDoc_fault sv' = None"
  shows "\<exists>fu d. createUserWithEmailAndPassword sv email_in password = Inr fu
         \<and> getDoc sv' (uid fu) s' = Inr (Some d)
         \<and> get_prop d ''businessName'' = optional biz
         \<and> get_prop d ''website'' = optional site
         \<and> get_prop d ''role'' = JStr ''user''
         \<and> get_prop d ''status'' = JStr ''active''"
proof (cases "createUserWithEmailAndPassword sv email_in password")
  case (Inl e)
  with ok show ?thesis
    by (simp add: signup_def signup_try_def rethrow_finally_def Let_def)
next
  case (Inr fu)
  show ?thesis
  proof (cases "setDoc_fault sv")
    case (Some e)
    with ok Inr show ?thesis
      by (simp add: signup_def signup_try_def rethrow_finally_def Let_def setDoc_def)
  next
    case None
    with ok Inr have "users s' (uid fu) = Some (map_of
                [(''email'', nullable (email fu)),
                 (''businessName'', optional biz),
                 (''website'', optional site),
                 (''role'', JStr ''user''),
                 (''status'', JStr ''active''),
                 (''createdAt'', JStr (now sv))])"
      by (auto simp: signup_def signup_try_def rethrow_finally_def Let_def state_defs)
    with rd Inr show ?thesis
      by (simp add: getDoc_def get_prop_def)
  qed
qed

theorem signup_roundtrip_witness:
  "\<exists>fu d. createUserWithEmailAndPassword accepting ''a@x.io'' ''secret'' = Inr fu
     \<and> getDoc accepting (uid fu)
          (snd (signup accepting ''a@x.io'' ''secret'' (Some ''Acme'') (Some ''acme.io'')
             (initial Map.empty))) = Inr (Some d)
     \<and> get_prop d ''businessName'' = JStr ''Acme''
     \<and> get_prop d ''website'' = JStr ''acme.io''
     \<and> get_prop d ''role'' = JStr ''user''
     \<and> get_prop d ''status'' = JStr ''active''"
proof -
  have "fst (signup accepting ''a@x.io'' ''secret'' (Some ''Acme'') (Some ''acme.io'')
      (initial Map.empty)) = None"
    by (simp add: signup_def signup_try_def rethrow_finally_def Let_def setDoc_def accepting_def)
  then have ok: "signup accepting ''a@x.io'' ''secret'' (Some ''Acme'') (Some ''acme.io'')
      (initial Map.empty)
    = (None, snd (signup accepting ''a@x.io'' ''secret'' (Some ''Acme'') (Some ''acme.io'')
      (initial Map.empty)))"
    by (simp add: prod_eq_iff)
  have rd: "getDoc_fault accepting = None"
    by (simp add: accepting_def)
  show ?thesis
    using signup_roundtrip [OF ok rd] by (simp add: optional_def)
qed

text \<open>
  C4. When the provider rejects the credentials, \<^verbatim>\<open>signup\<close> and \<^verbatim>\<open>login\<close> throw the
  provider's error to the caller, leave the published Session as it was and end with
  \<^verbatim>\<open>loading\<close> false.
\<close>

theorem provider_rejection_propagates:
  "(createUserWithEmailAndPassword sv email_in password = Inl e \<longrightarrow>
      fst (signup sv email_in password biz site s) = Some e
    \<and> user (snd (signup sv email_in password biz site s)) = user s
    \<and> loading (snd (signup sv email_in password biz site s)) = False)
 \<and> (signInWithEmailAndPassword sv email_in password = Inl e \<longrightarrow>
      fst (login sv email_in password s) = Some e
    \<and> user (snd (login sv email_in password s)) = user s
    \<and> loading (snd (login sv email_in password s)) = False)"
  by (simp add: signup_def signup_try_def login_def login_try_def rethrow_finally_def Let_def
      setLoading_def console_error_def)

theorem provider_rejection_propagates_witness:
  "fst (signup rejecting ''a@x.io'' ''pw'' None None signed_in)
      = Some (ProviderError ''auth/email-already-in-use'')
 \<and> user (snd (signup rejecting ''a@x.io'' ''pw'' None None signed_in)) = user signed_in
 \<and> loading (snd (signup rejecting ''a@x.io'' ''pw'' None None signed_in)) = False
 \<and> fst (login rejecting ''a@x.io'' ''pw'' signed_in)
      = Some (ProviderError ''auth/wrong-password'')
 \<and> user (snd (login rejecting ''a@x.io'' ''pw'' signed_in)) = user signed_in
 \<and> loading (snd (login rejecting ''a@x.io'' ''pw'' signed_in)) = False"
proof -
  have up: "createUserWithEmailAndPassword rejecting ''a@x.io'' ''pw''
      = Inl (ProviderError ''auth/email-already-in-use'')"
    by (simp add: rejecting_def)
  have inn: "signInWithEmailAndPassword rejecting ''a@x.io'' ''pw''
      = Inl (ProviderError ''auth/wrong-password'')"
    by (simp add: rejecting_def)
  show ?thesis
    using provider_rejection_propagates
        [of rejecting "''a@x.io''" "''pw''" "ProviderError ''auth/email-already-in-use''"
          None None signed_in]
      provider_rejection_propagates
        [of rejecting "''a@x.io''" "''pw''" "ProviderError ''auth/wrong-password''"
          None None signed_in]
      up inn
    by simp
qed

text \<open>
  C7. When \<^verbatim>\<open>login\<close> is accepted by the provider and the fetch finds no record, the
  call completes, the published Session is the one from before the call, and the store is
  unchanged: no record is created.
\<close>

theorem login_missing_record_keeps_session:
  assumes "signInWithEmailAndPassword sv email_in password = Inr fu"
      and "getDoc sv (uid fu) s = Inr None"
  shows "fst (login sv email_in password s) = None
     \<and> user (snd (login sv email_in password s)) = user s
     \<and> users (snd (login sv email_in password s)) = users s"
  using assms
  by (simp add: login_def login_try_def rethrow_finally_def Let_def state_defs
      split: option.splits)

theorem login_missing_record_keeps_session_witness:
  "fst (login accepting ''new@x.io'' ''pw'' signed_in) = None
 \<and> user (snd (login accepting ''new@x.io'' ''pw'' signed_in)) = user signed_in
 \<and> users (snd (login accepting ''new@x.io'' ''pw'' signed_in)) = users signed_in"
proof -
  have auth: "signInWithEmailAndPassword accepting ''new@x.io'' ''pw''
      = Inr \<lparr>uid = ''uid-new@x.io'', email = Some ''new@x.io''\<rparr>"
    by (simp add: accepting_def)
  have fetch: "getDoc accepting (uid \<lparr>uid = ''uid-new@x.io'', email = Some ''new@x.io''\<rparr>)
      signed_in = Inr None"
    by (simp add: getDoc_def accepting_def signed_in_def)
  show ?thesis
    using login_missing_record_keeps_session [OF auth fetch] by simp
qed

text \<open>
  C8. A \<^verbatim>\<open>logout\<close> whose \<^verbatim>\<open>signOut\<close> succeeds leaves the Session Absent, and
  \<^verbatim>\<open>isAdmin\<close> is false afterwards.
\<close>

theorem logout_clears_session:
  assumes "signOut sv = None"
  shows "fst (logout sv s) = None
     \<and> user (snd (logout sv s)) = None
     \<and> \<not> isAdmin (snd (logout sv s))"
  using assms
  by (simp add: logout_def logout_try_def rethrow_finally_def Let_def state_defs isAdmin_def)

theorem logout_clears_session_witness:
  "isAdmin signed_in
 \<and> fst (logout accepting signed_in) = None
 \<and> user (snd (logout accepting signed_in)) = None
 \<and> \<not> isAdmin (snd (logout accepting signed_in))"
proof -
  have ends: "signOut accepting = None"
    by (simp add: accepting_def)
  have "isAdmin signed_in"
    by (simp add: isAdmin_def signed_in_def admin_session_def get_prop_def)
  then show ?thesis
    using logout_clears_session [OF ends, of signed_in] by simp
qed

text \<open>
  C10. A \<^verbatim>\<open>logout\<close> whose \<^verbatim>\<open>signOut\<close> fails throws that error again; the state
  afterwards is the state before with \<^verbatim>\<open>loading\<close> false and the error on the console,
  so the Session is still the one from before the call.
\<close>

theorem logout_failure_keeps_session:
  assumes "signOut sv = Some e"
  shows "logout sv s
     = (Some e, s\<lparr>loading := False, console := console s @ [(''Logout error:'', e)]\<rparr>)"
  using assms
  by (simp add: logout_def logout_try_def rethrow_finally_def Let_def state_defs)

theorem logout_failure_keeps_session_witness:
  "logout rejecting signed_in
     = (Some (ProviderError ''auth/network-request-failed''),
        signed_in\<lparr>loading := False, console :=
          console signed_in @ [(''Logout error:'', ProviderError ''auth/network-request-failed'')]\<rparr>)
 \<and> user (snd (logout rejecting signed_in)) = Some admin_session"
proof -
  have fails: "signOut rejecting = Some (ProviderError ''auth/network-request-failed'')"
    by (simp add: rejecting_def)
  show ?thesis
    using logout_failure_keeps_session [OF fails, of signed_in]
    by (simp add: signed_in_def)
qed

subsection \<open>The accessor\<close>

text \<open>
  C9. Calling \<^verbatim>\<open>useAuth\<close> with no enclosing \<^verbatim>\<open>AuthProvider\<close> throws the error
  \<^verbatim>\<open>useAuth must be used within an AuthProvider\<close>; it returns no context value, default
  or otherwise.
\<close>

theorem useAuth_outside_provider_throws:
  "useAuth [] = Inl (Error ''useAuth must be used within an AuthProvider'')
   \<and> (\<forall>c. useAuth [] \<noteq> Inr c)"
  by (simp add: useAuth_def useContext_def)

end
